theory Spec2Isabelle
  imports Main "HOL-Library.Sublist" "HOL-Library.AList"
begin

section \<open>Python values\<close>

text \<open>
  The values the script handles come from \<^verbatim>\<open>json.load\<close> (the review datasets) and from
  the session state. One datatype covers them. \<open>PyNone\<close> is Python's \<^verbatim>\<open>None\<close>
  (JSON \<^verbatim>\<open>null\<close>, and what \<^verbatim>\<open>dict.get\<close> returns for a missing key). A dict is
  kept as the list of its items: the value of key \<open>k\<close> is the first pair with that key.
  A number is kept as an integer; only whether it is zero is ever observed.

  A \<open>string\<close> stands for a Python \<^verbatim>\<open>str\<close> whose code points are below 256, one
  \<open>char\<close> per code point.
\<close>

datatype pyval =
    PyNone
  | PyBool bool
  | PyNum int
  | PyStr string
  | PyList "pyval list"
  | PyDict "(string \<times> pyval) list"

text \<open>Truth value testing, as \<^verbatim>\<open>not x\<close>, \<^verbatim>\<open>x or y\<close> and \<^verbatim>\<open>if x\<close> use it.\<close>

fun truthy :: "pyval \<Rightarrow> bool" where
  "truthy PyNone = False"
| "truthy (PyBool b) = b"
| "truthy (PyNum n) = (n \<noteq> 0)"
| "truthy (PyStr s) = (s \<noteq> [])"
| "truthy (PyList xs) = (xs \<noteq> [])"
| "truthy (PyDict kvs) = (kvs \<noteq> [])"

definition py_or :: "pyval \<Rightarrow> pyval \<Rightarrow> pyval" where
  "py_or a b = (if truthy a then a else b)"

text \<open>\<^verbatim>\<open>d.get(k, default)\<close> on a dict kept as its item list.\<close>

definition dict_get :: "(string \<times> 'v) list \<Rightarrow> string \<Rightarrow> 'v \<Rightarrow> 'v" where
  "dict_get d k dflt = (case map_of d k of None \<Rightarrow> dflt | Some v \<Rightarrow> v)"

text \<open>\<^verbatim>\<open>k in d\<close>.\<close>

definition dict_has :: "(string \<times> 'v) list \<Rightarrow> string \<Rightarrow> bool" where
  "dict_has d k = (case map_of d k of None \<Rightarrow> False | Some v \<Rightarrow> True)"

section \<open>String primitives\<close>

text \<open>
  \<^verbatim>\<open>str.isspace\<close> on the code points below 256: TAB, LF, VT, FF, CR, the four
  separators 0x1C to 0x1F, space, NEL (0x85) and the no-break space (0xA0).
\<close>

definition isspace :: "char \<Rightarrow> bool" where
  "isspace c = (c \<in> set [CHR 0x09, CHR 0x0A, CHR 0x0B, CHR 0x0C, CHR 0x0D,
                          CHR 0x1C, CHR 0x1D, CHR 0x1E, CHR 0x1F, CHR 0x20,
                          CHR 0x85, CHR 0xA0])"

text \<open>\<^verbatim>\<open>s.strip()\<close>: leading and trailing whitespace removed.\<close>

definition strip :: "string \<Rightarrow> string" where
  "strip s = rev (dropWhile isspace (rev (dropWhile isspace s)))"

text \<open>\<^verbatim>\<open>s.lstrip('-')\<close>: every leading hyphen removed.\<close>

definition lstrip_hyphen :: "string \<Rightarrow> string" where
  "lstrip_hyphen s = dropWhile (\<lambda>c. c = CHR ''-'') s"

text \<open>
  The text after the leftmost occurrence of \<open>m\<close> in a string, \<open>None\<close> when \<open>m\<close> does
  not occur: where a regex search for the literal \<open>m\<close> stops.
\<close>

fun after_first :: "string \<Rightarrow> string \<Rightarrow> string option" where
  "after_first m [] = (if m = [] then Some [] else None)"
| "after_first m (c # cs) =
     (if prefix m (c # cs) then Some (drop (length m) (c # cs)) else after_first m cs)"

text \<open>
  The text before the leftmost occurrence of \<open>m\<close>, the whole string when \<open>m\<close> does not
  occur: what the lazy group \<^verbatim>\<open>(.*?)(?=m|\Z)\<close> captures under \<^verbatim>\<open>re.DOTALL\<close>.
\<close>

fun before_first :: "string \<Rightarrow> string \<Rightarrow> string" where
  "before_first m [] = []"
| "before_first m (c # cs) = (if prefix m (c # cs) then [] else c # before_first m cs)"

text \<open>
  \<^verbatim>\<open>s.split(sep)\<close> for a non-empty separator: the pieces between the occurrences of
  \<open>sep\<close>, found left to right without overlap. (Python raises ValueError on an empty
  separator; the script only splits on a two-character one.)
\<close>

function py_split :: "string \<Rightarrow> string \<Rightarrow> string list" where
  "py_split sep s =
     (if sep = [] then [s]
      else case after_first sep s of
             None \<Rightarrow> [s]
           | Some r \<Rightarrow> before_first sep s # py_split sep r)"
  by pat_completeness auto

termination py_split
proof (relation "measure (\<lambda>(sep, s). length s)")
  show "wf (measure (\<lambda>(sep, s). length s))" by simp
next
  fix sep s :: string and r
  assume sep: "sep \<noteq> []" and r: "after_first sep s = Some r"
  have "after_first sep t = Some r \<Longrightarrow> length r < length t" for t
    using sep by (induction t) (auto split: if_splits)
  with r show "((sep, r), (sep, s)) \<in> measure (\<lambda>(sep, s). length s)" by simp
qed

declare py_split.simps [simp del]

section \<open>The review parser\<close>

text \<open>
  \<^verbatim>\<open>re.search(r'\*\*A\*\*(.*?)(?=\*\*B\*\*|\Z)', text, re.DOTALL)\<close>: the match starts
  at the leftmost \<open>**A**\<close>; its group 1 runs to the next \<open>**B**\<close> or to the end of the
  text. The result is group 1, or \<open>None\<close> when there is no match.
\<close>

definition section_match :: "string \<Rightarrow> string \<Rightarrow> string \<Rightarrow> string option" where
  "section_match marker nxt review_text =
     map_option (before_first nxt) (after_first marker review_text)"

text \<open>The inner loop of \<^verbatim>\<open>parse_review\<close>: one section's text to its bullet points.\<close>

definition clean_point :: "string \<Rightarrow> string" where
  "clean_point point = strip (lstrip_hyphen (strip point))"

definition cleaned_points :: "string \<Rightarrow> string list" where
  "cleaned_points group1 =
     (let content = strip group1;
          raw_points = py_split [CHR 0x0A, CHR ''-''] content
      in filter (\<lambda>cleaned. cleaned \<noteq> []) (map clean_point raw_points))"

definition empty_sections :: "(string \<times> string list) list" where
  "empty_sections =
     [(''Summary'', []), (''Strengths'', []), (''Weaknesses'', []), (''Questions'', [])]"

definition set_points ::
  "string option \<times> string \<Rightarrow> (string \<times> string list) list \<Rightarrow> (string \<times> string list) list" where
  "set_points ms sections =
     (case fst ms of
        None \<Rightarrow> sections
      | Some group1 \<Rightarrow> AList.update (snd ms) (cleaned_points group1) sections)"

definition parse_text :: "string \<Rightarrow> (string \<times> string list) list" where
  "parse_text review_text =
     (let sections = empty_sections;
          summary_match = section_match ''**Summary**'' ''**Strengths**'' review_text;
          strengths_match = section_match ''**Strengths**'' ''**Weaknesses**'' review_text;
          weaknesses_match = section_match ''**Weaknesses**'' ''**Questions**'' review_text;
          questions_match = after_first ''**Questions**'' review_text;
          sections =
            (case summary_match of
               None \<Rightarrow> sections
             | Some group1 \<Rightarrow>
                 if strip group1 \<noteq> []
                 then AList.update ''Summary''
                        (dict_get sections ''Summary'' [] @ [strip group1]) sections
                 else sections)
      in fold set_points
           [(strengths_match, ''Strengths''), (weaknesses_match, ''Weaknesses''),
            (questions_match, ''Questions'')]
           sections)"

definition parse_review :: "pyval \<Rightarrow> (string \<times> string list) list" where
  "parse_review review_text =
     (case review_text of
        PyStr s \<Rightarrow> parse_text s
      | _ \<Rightarrow> [(''Summary'', [''Review not available.'']), (''Strengths'', []),
              (''Weaknesses'', []), (''Questions'', [])])"

section \<open>Locating a paper\<close>

text \<open>
  The part of the data store \<^verbatim>\<open>get_paper_details\<close> reads: two collections, each with
  the dataset of variant \<open>5_3\<close> and of variant \<open>5_5\<close>, a dataset being a JSON object
  from paper id to payload.
\<close>

record collection =
  v5_3 :: "(string \<times> pyval) list"
  v5_5 :: "(string \<times> pyval) list"

record data_store =
  colm :: collection
  neurips :: collection

text \<open>\<open>Path_div d f\<close> is the path \<^verbatim>\<open>d / f\<close> for a directory \<open>d\<close> of the script.\<close>

datatype path = Path_div string string

definition COLM_PDF_DIR :: string where
  "COLM_PDF_DIR = ''pdfs_colm''"

definition NEURIPS_PDF_DIR :: string where
  "NEURIPS_PDF_DIR = ''pdfs_neurips''"

definition get_paper_details ::
  "string \<Rightarrow> data_store \<Rightarrow> path option \<times> pyval \<times> pyval \<times> string option" where
  "get_paper_details paper_id ds =
     (if dict_has (v5_3 (colm ds)) paper_id \<or> dict_has (v5_5 (colm ds)) paper_id
      then (Some (Path_div COLM_PDF_DIR (paper_id @ ''.pdf'')),
            dict_get (v5_3 (colm ds)) paper_id PyNone,
            dict_get (v5_5 (colm ds)) paper_id PyNone, Some ''COLM'')
      else if dict_has (v5_3 (neurips ds)) paper_id \<or> dict_has (v5_5 (neurips ds)) paper_id
      then (Some (Path_div NEURIPS_PDF_DIR (paper_id @ ''.pdf'')),
            dict_get (v5_3 (neurips ds)) paper_id PyNone,
            dict_get (v5_5 (neurips ds)) paper_id PyNone, Some ''NeurIPS'')
      else (None, PyNone, PyNone, None))"

section \<open>Session state and the blind order\<close>

text \<open>\<^verbatim>\<open>st.session_state\<close>: a dict from keys to Python values.\<close>

type_synonym session_state = "string \<rightharpoonup> pyval"

text \<open>\<^verbatim>\<open>st.session_state.get(key)\<close>.\<close>

definition session_get :: "session_state \<Rightarrow> string \<Rightarrow> pyval" where
  "session_get ss k = (case ss k of None \<Rightarrow> PyNone | Some v \<Rightarrow> v)"

text \<open>
  \<^verbatim>\<open>random.shuffle\<close> on a list of two items makes one draw \<open>j\<close> from \<open>{0, 1}\<close> and
  exchanges item 1 with item \<open>j\<close>. The draw is a parameter.
\<close>

fun shuffle2 :: "nat \<Rightarrow> 'a list \<Rightarrow> 'a list" where
  "shuffle2 j [a, b] = (if j = 0 then [b, a] else [a, b])"
| "shuffle2 j xs = xs"

text \<open>Lines 230 to 236: the order of the two variants for a paper, and the new state.\<close>

definition review_order_for :: "nat \<Rightarrow> string \<Rightarrow> session_state \<Rightarrow> pyval \<times> session_state" where
  "review_order_for j selected_paper_id ss =
     (let session_key = ''order_'' @ selected_paper_id in
      case ss session_key of
        None \<Rightarrow>
          (let opts = shuffle2 j [''5_3'', ''5_5''];
               v = PyList (map PyStr opts)
           in (v, ss(session_key \<mapsto> v)))
      | Some review_order \<Rightarrow> (review_order, ss))"

text \<open>Accesses one after the other, each with its own draw and paper id.\<close>

fun accesses :: "(nat \<times> string) list \<Rightarrow> session_state \<Rightarrow> session_state" where
  "accesses [] ss = ss"
| "accesses ((j, pid) # rest) ss = accesses rest (snd (review_order_for j pid ss))"

section \<open>The rating form\<close>

definition GRADING_OPTIONS :: "string list" where
  "GRADING_OPTIONS =
     [''Select...'', ''Completely Disagree'', ''Mostly Disagree'', ''Mostly Agree'',
      ''Completely Agree'']"

text \<open>\<^verbatim>\<open>str(i)\<close> for a list index.\<close>

definition digit_char :: "nat \<Rightarrow> char" where
  "digit_char d = char_of (48 + d)"

fun str_nat :: "nat \<Rightarrow> string" where
  "str_nat n = (if n < 10 then [digit_char n] else str_nat (n div 10) @ [digit_char (n mod 10)])"

declare str_nat.simps [simp del]

text \<open>The widget keys: \<^verbatim>\<open>f"{selected_paper_id}_{r_type}_Summary"\<close> and
  \<^verbatim>\<open>f"{selected_paper_id}_{r_type}_{section}_{i}"\<close>.\<close>

definition summary_key :: "string \<Rightarrow> string \<Rightarrow> string" where
  "summary_key selected_paper_id r_type = selected_paper_id @ ''_'' @ r_type @ ''_Summary''"

definition point_key :: "string \<Rightarrow> string \<Rightarrow> string \<Rightarrow> nat \<Rightarrow> string" where
  "point_key selected_paper_id r_type sec i =
     selected_paper_id @ ''_'' @ r_type @ ''_'' @ sec @ ''_'' @ str_nat i"

text \<open>
  What the form emits, in order: markdown text, a select box (label, options, key, and
  whether the label is shown), a divider.
\<close>

datatype element =
    Markdown string
  | Selectbox string "string list" string bool
  | Divider

text \<open>Lines 245 to 249: the review text the form parses.\<close>

definition render_text :: "pyval \<Rightarrow> pyval" where
  "render_text raw_data =
     (case raw_data of
        PyDict d \<Rightarrow>
          py_or (dict_get d ''inference_review'' (PyStr [])) (dict_get d ''prediction'' (PyStr []))
      | PyStr s \<Rightarrow> PyStr s
      | _ \<Rightarrow> PyStr [])"

definition summary_block :: "string \<Rightarrow> string \<Rightarrow> (string \<times> string list) list \<Rightarrow> element list" where
  "summary_block selected_paper_id r_type parsed_data =
     (let s_list = dict_get parsed_data ''Summary'' [];
          s_text = (case s_list of [] \<Rightarrow> ''No summary found.'' | s # _ \<Rightarrow> s);
          s_key = summary_key selected_paper_id r_type
      in [Markdown ''##### Summary'', Markdown s_text,
          Selectbox ''Is this summary accurate?'' GRADING_OPTIONS s_key True, Divider])"

definition point_row :: "string \<Rightarrow> string \<Rightarrow> string \<Rightarrow> nat \<times> string \<Rightarrow> element list" where
  "point_row selected_paper_id r_type sec ipt =
     [Markdown (''- '' @ snd ipt),
      Selectbox ''Rate Point'' GRADING_OPTIONS
        (point_key selected_paper_id r_type sec (fst ipt)) False]"

definition section_block ::
  "string \<Rightarrow> string \<Rightarrow> (string \<times> string list) list \<Rightarrow> string \<Rightarrow> element list" where
  "section_block selected_paper_id r_type parsed_data sec =
     (let points = dict_get parsed_data sec [] in
      if points \<noteq> []
      then Markdown (''##### '' @ sec)
           # concat (map (point_row selected_paper_id r_type sec) (List.enumerate 0 points))
           @ (if sec \<noteq> ''Questions'' then [Divider] else [])
      else [])"

definition render_tab :: "string \<Rightarrow> (string \<times> pyval) list \<Rightarrow> string \<Rightarrow> element list" where
  "render_tab selected_paper_id reviews_map r_type =
     (let raw_data = dict_get reviews_map r_type PyNone;
          review_text = render_text raw_data;
          parsed_data = parse_review review_text
      in summary_block selected_paper_id r_type parsed_data
         @ concat (map (section_block selected_paper_id r_type parsed_data)
                     [''Strengths'', ''Weaknesses'', ''Questions'']))"


definition make_reviews_map :: "pyval \<Rightarrow> pyval \<Rightarrow> (string \<times> pyval) list" where
  "make_reviews_map review_53 review_55 = [(''5_3'', review_53), (''5_5'', review_55)]"

text \<open>The form is reached only past \<^verbatim>\<open>if not review_53 and not review_55\<close>.\<close>

definition form_shown :: "pyval \<Rightarrow> pyval \<Rightarrow> bool" where
  "form_shown review_53 review_55 = (truthy review_53 \<or> truthy review_55)"

section \<open>Submission\<close>

text \<open>
  One row of the results log. \<open>sect\<close> is the column \<^verbatim>\<open>section\<close>. The rating is the
  value the session state holds for the row's control.
\<close>

record result_row =
  timestamp :: string
  user :: string
  paper_id :: string
  review_type :: string
  sect :: string
  point_index :: nat
  point_text :: string
  rating :: pyval

text \<open>
  The results file: \<open>None\<close> while it does not exist, else its header line and its rows.
  \<^verbatim>\<open>save_results\<close> writes the header only when it creates the file. The header is the
  column list of \<^verbatim>\<open>pd.DataFrame(new_records)\<close>: the keys of the records, in their
  order, and no column at all for an empty list of records.
\<close>

record csv_file =
  header :: "string list"
  csv_rows :: "result_row list"

definition columns :: "result_row list \<Rightarrow> string list" where
  "columns new_records =
     (case new_records of
        [] \<Rightarrow> []
      | _ # _ \<Rightarrow> [''timestamp'', ''user'', ''paper_id'', ''review_type'', ''section'',
                  ''point_index'', ''point_text'', ''rating''])"

definition save_results :: "result_row list \<Rightarrow> csv_file option \<Rightarrow> csv_file option" where
  "save_results new_records f =
     (case f of
        None \<Rightarrow> Some \<lparr>header = columns new_records, csv_rows = new_records\<rparr>
      | Some c \<Rightarrow> Some (c\<lparr>csv_rows := csv_rows c @ new_records\<rparr>))"

text \<open>
  What the submit block reads: the clock (\<open>now k\<close> is the time of its \<open>k\<close>-th reading;
  every row appended reads it once), the user, the paper, the two payloads and the
  session state.
\<close>

record submission =
  now :: "nat \<Rightarrow> string"
  current_user_id :: string
  selected_paper_id :: string
  reviews_map :: "(string \<times> pyval) list"
  session :: session_state

datatype py_error = IndexError

datatype message = Success string | Error string

text \<open>\<^verbatim>\<open>not v or v == "Select..."\<close>.\<close>

definition unrated :: "pyval \<Rightarrow> bool" where
  "unrated v = (if truthy v then v = PyStr ''Select...'' else True)"

text \<open>Line 301: the review text the submit block parses.\<close>

definition submit_text :: "pyval \<Rightarrow> pyval" where
  "submit_text raw_sub =
     (case raw_sub of
        PyDict d \<Rightarrow> dict_get d ''inference_review'' (PyStr [])
      | _ \<Rightarrow> raw_sub)"

text \<open>\<^verbatim>\<open>xs[0]\<close>.\<close>

definition item0 :: "'a list \<Rightarrow> py_error + 'a" where
  "item0 xs = (case xs of [] \<Rightarrow> Inl IndexError | x # _ \<Rightarrow> Inr x)"

text \<open>
  The dict appended to \<^verbatim>\<open>records\<close> (lines 310 to 319 and 330 to 339), built when
  \<open>n\<close> records are there already: its timestamp is clock reading \<open>n\<close>.
\<close>

definition make_record ::
  "submission \<Rightarrow> nat \<Rightarrow> string \<Rightarrow> string \<Rightarrow> nat \<Rightarrow> string \<Rightarrow> pyval \<Rightarrow> result_row" where
  "make_record sub n r_type sec i txt val =
     \<lparr>timestamp = now sub n, user = current_user_id sub, paper_id = selected_paper_id sub,
      review_type = r_type, sect = sec, point_index = i, point_text = txt, rating = val\<rparr>"

text \<open>
  Lines 322 to 339, the loop over one section's points: it stops at the first unrated
  point with \<open>valid\<close> set to \<open>False\<close>, and appends a row for every point before it.
\<close>

fun points_loop ::
  "submission \<Rightarrow> string \<Rightarrow> string \<Rightarrow> (nat \<times> string) list \<Rightarrow> result_row list \<times> bool
   \<Rightarrow> result_row list \<times> bool" where
  "points_loop sub r_type sec [] rv = rv"
| "points_loop sub r_type sec ((i, txt) # rest) (records, valid) =
     (let p_key = point_key (selected_paper_id sub) r_type sec i;
          p_val = session_get (session sub) p_key
      in if unrated p_val then (records, False)
         else points_loop sub r_type sec rest
                (records @ [make_record sub (length records) r_type sec i txt p_val], valid))"

text \<open>
  Lines 321 to 339, the loop over the three sections. The \<^verbatim>\<open>break\<close> of the inner loop
  leaves only the inner loop: the next section is still visited.
\<close>

definition sections_loop ::
  "submission \<Rightarrow> string \<Rightarrow> (string \<times> string list) list \<Rightarrow> result_row list \<times> bool
   \<Rightarrow> result_row list \<times> bool" where
  "sections_loop sub r_type parsed_sub rv =
     fold (\<lambda>sec. points_loop sub r_type sec (List.enumerate 0 (dict_get parsed_sub sec [])))
       [''Strengths'', ''Weaknesses'', ''Questions''] rv"

text \<open>
  Lines 298 to 340, the loop over the two variants. An unrated Summary control ends it
  with \<open>valid\<close> false; the Summary row takes its text from
  \<^verbatim>\<open>parsed_sub.get("Summary", [""])[0]\<close>, which raises on an empty list.
\<close>

fun variants_loop ::
  "submission \<Rightarrow> string list \<Rightarrow> result_row list \<times> bool
   \<Rightarrow> py_error + (result_row list \<times> bool)" where
  "variants_loop sub [] rv = Inr rv"
| "variants_loop sub (r_type # rest) (records, valid) =
     (let raw_sub = dict_get (reviews_map sub) r_type PyNone;
          txt_sub = submit_text raw_sub;
          parsed_sub = parse_review txt_sub;
          s_val = session_get (session sub) (summary_key (selected_paper_id sub) r_type)
      in if unrated s_val then Inr (records, False)
         else case item0 (dict_get parsed_sub ''Summary'' [[]]) of
                Inl e \<Rightarrow> Inl e
              | Inr txt0 \<Rightarrow>
                  (let rv = sections_loop sub r_type parsed_sub
                              (records @ [make_record sub (length records) r_type ''Summary'' 0
                                            txt0 s_val], valid)
                   in if \<not> snd rv then Inr rv else variants_loop sub rest rv))"

text \<open>
  Lines 294 to 346: what pressing the submit button does to the results file, and the
  message shown; \<open>Inl\<close> when the block raises.
\<close>

definition submit :: "submission \<Rightarrow> csv_file option \<Rightarrow> py_error + (csv_file option \<times> message)" where
  "submit sub f =
     (case variants_loop sub [''5_3'', ''5_5''] ([], True) of
        Inl e \<Rightarrow> Inl e
      | Inr rv \<Rightarrow>
          if snd rv
          then Inr (save_results (fst rv) f, Success ''Saved successfully!'')
          else Inr (f, Error
                 ''Please ensure all fields (Summary and Points) are rated for both Review sets.''))"

section \<open>What the rating form shows\<close>



section \<open>The controls and rows a submission is about\<close>

text \<open>
  Notions to state what the submit block does: the parse it makes of a variant, the keys
  of the controls that parse calls for, whether a control holds a rating, and the rows
  due for a variant when all its controls do (the first of them read at clock reading
  \<open>k\<close>).
\<close>

definition parsed_at_submit :: "submission \<Rightarrow> string \<Rightarrow> (string \<times> string list) list" where
  "parsed_at_submit sub r_type =
     parse_review (submit_text (dict_get (reviews_map sub) r_type PyNone))"

definition points_at_submit :: "submission \<Rightarrow> string \<Rightarrow> string \<Rightarrow> string list" where
  "points_at_submit sub r_type sec = dict_get (parsed_at_submit sub r_type) sec []"


definition rated :: "submission \<Rightarrow> string \<Rightarrow> bool" where
  "rated sub k = (\<not> unrated (session_get (session sub) k))"

fun point_rows ::
  "submission \<Rightarrow> string \<Rightarrow> string \<Rightarrow> nat \<Rightarrow> (nat \<times> string) list \<Rightarrow> result_row list" where
  "point_rows sub r_type sec k [] = []"
| "point_rows sub r_type sec k ((i, txt) # rest) =
     make_record sub k r_type sec i txt
       (session_get (session sub) (point_key (selected_paper_id sub) r_type sec i))
     # point_rows sub r_type sec (Suc k) rest"

definition variant_rows :: "submission \<Rightarrow> string \<Rightarrow> nat \<Rightarrow> result_row list" where
  "variant_rows sub r_type k =
     (let s = points_at_submit sub r_type ''Strengths'';
          w = points_at_submit sub r_type ''Weaknesses'';
          q = points_at_submit sub r_type ''Questions''
      in make_record sub k r_type ''Summary'' 0 (hd (points_at_submit sub r_type ''Summary''))
           (session_get (session sub) (summary_key (selected_paper_id sub) r_type))
         # point_rows sub r_type ''Strengths'' (k + 1) (List.enumerate 0 s)
         @ point_rows sub r_type ''Weaknesses'' (k + 1 + length s) (List.enumerate 0 w)
         @ point_rows sub r_type ''Questions'' (k + 1 + length s + length w)
             (List.enumerate 0 q))"

section \<open>The same ratings under the other binding\<close>



section \<open>Facts about the string primitives\<close>

lemma after_first_absent: "\<not> sublist m s \<Longrightarrow> after_first m s = None"
proof (induction s)
  case Nil
  then show ?case by auto
next
  case (Cons c cs)
  from Cons.prems have "\<not> prefix m (c # cs)" and "\<not> sublist m cs"
    by (auto simp: sublist_Cons_right)
  with Cons.IH show ?case by simp
qed

lemma section_match_absent: "\<not> sublist marker s \<Longrightarrow> section_match marker nxt s = None"
  by (simp add: section_match_def after_first_absent)

section \<open>The parser on fixed inputs, on non-text and on text without markers\<close>

text \<open>
  C8. The example text of the specification parses to Summary = ["A study."],
  Strengths = ["Point 1", "Point 2"], Weaknesses = [] and Questions = ["Q1"].
\<close>

theorem parse_review_example:
  "parse_review (PyStr ''**Summary**\<newline>A study.\<newline>**Strengths**\<newline>- Point 1\<newline>- Point 2\<newline>**Weaknesses**\<newline>**Questions**\<newline>- Q1'')
   = [(''Summary'', [''A study.'']), (''Strengths'', [''Point 1'', ''Point 2'']),
      (''Weaknesses'', []), (''Questions'', [''Q1''])]"
  by code_simp

text \<open>
  C9. On any value that is not a string the parser returns the placeholder Summary
  "Review not available." and three empty lists; on any string in which none of the four
  markers occurs it returns four empty lists, with no placeholder.
\<close>

theorem parse_review_placeholder_and_no_markers:
  "((\<forall>s. v \<noteq> PyStr s) \<longrightarrow>
      parse_review v = [(''Summary'', [''Review not available.'']), (''Strengths'', []),
                        (''Weaknesses'', []), (''Questions'', [])])
   \<and> (\<not> sublist ''**Summary**'' t \<and> \<not> sublist ''**Strengths**'' t
       \<and> \<not> sublist ''**Weaknesses**'' t \<and> \<not> sublist ''**Questions**'' t \<longrightarrow>
      parse_review (PyStr t) = [(''Summary'', []), (''Strengths'', []),
                                (''Weaknesses'', []), (''Questions'', [])])"
proof (intro conjI impI)
  assume "\<forall>s. v \<noteq> PyStr s"
  then show "parse_review v = [(''Summary'', [''Review not available.'']), (''Strengths'', []),
                               (''Weaknesses'', []), (''Questions'', [])]"
    by (cases v) (simp_all add: parse_review_def)
next
  assume none: "\<not> sublist ''**Summary**'' t \<and> \<not> sublist ''**Strengths**'' t
       \<and> \<not> sublist ''**Weaknesses**'' t \<and> \<not> sublist ''**Questions**'' t"
  then have "section_match ''**Summary**'' ''**Strengths**'' t = None"
    and "section_match ''**Strengths**'' ''**Weaknesses**'' t = None"
    and "section_match ''**Weaknesses**'' ''**Questions**'' t = None"
    and "after_first ''**Questions**'' t = None"
    by (simp_all add: section_match_absent after_first_absent)
  then show "parse_review (PyStr t) = [(''Summary'', []), (''Strengths'', []),
                                       (''Weaknesses'', []), (''Questions'', [])]"
    by (simp add: parse_review_def parse_text_def set_points_def empty_sections_def)
qed

theorem parse_review_placeholder_and_no_markers_witness:
  "(\<forall>s. PyNone \<noteq> PyStr s)
   \<and> parse_review PyNone = [(''Summary'', [''Review not available.'']), (''Strengths'', []),
                             (''Weaknesses'', []), (''Questions'', [])]
   \<and> \<not> sublist ''**Summary**'' ''Good paper.'' \<and> \<not> sublist ''**Strengths**'' ''Good paper.''
   \<and> \<not> sublist ''**Weaknesses**'' ''Good paper.'' \<and> \<not> sublist ''**Questions**'' ''Good paper.''
   \<and> parse_review (PyStr ''Good paper.'') = [(''Summary'', []), (''Strengths'', []),
                                               (''Weaknesses'', []), (''Questions'', [])]"
proof -
  have h1: "\<forall>s. PyNone \<noteq> PyStr s" by simp
  have h2: "\<not> sublist ''**Summary**'' ''Good paper.'' \<and> \<not> sublist ''**Strengths**'' ''Good paper.''
       \<and> \<not> sublist ''**Weaknesses**'' ''Good paper.'' \<and> \<not> sublist ''**Questions**'' ''Good paper.''"
    by code_simp
  from parse_review_placeholder_and_no_markers [of PyNone "''Good paper.''"] h1 h2
  show ?thesis by blast
qed

section \<open>Leftmost occurrences\<close>

text \<open>
  \<open>m\<close> occurs in \<open>p @ m @ r\<close> at offset \<open>length p\<close>; it occurs nowhere before when it is
  no sublist of \<open>p @ butlast m\<close>. Then the two searches cut the string right there.
\<close>

lemma first_occurrence_cut:
  "m \<noteq> [] \<Longrightarrow> \<not> sublist m (p @ butlast m) \<Longrightarrow>
     before_first m (p @ m @ r) = p \<and> after_first m (p @ m @ r) = Some r"
proof (induction p)
  case Nil
  then obtain c cs where "m @ r = c # cs" by (cases m) auto
  moreover have "prefix m (m @ r)" by simp
  ultimately show ?case by (metis append_Nil before_first.simps(2) after_first.simps(2)
        append_eq_conv_conj)
next
  case (Cons c p)
  have len: "length m \<le> length (c # p @ butlast m)" by simp
  have no_prefix: "\<not> prefix m (c # p @ m @ r)"
  proof
    assume pm: "prefix m (c # p @ m @ r)"
    have "prefix (c # p @ butlast m) (c # p @ m @ r)"
      using Cons.prems(1) by (metis Cons_prefix_Cons append_butlast_last_id append.assoc
          prefixI same_prefix_prefix)
    with pm have "prefix m (c # p @ butlast m) \<or> prefix (c # p @ butlast m) m"
      by (rule prefix_same_cases)
    with len have "prefix m (c # p @ butlast m)"
      by (metis prefix_length_le prefix_order.antisym_conv prefix_length_prefix
          order_refl le_antisym prefix_order.order_refl)
    then have "sublist m ((c # p) @ butlast m)" by auto
    with Cons.prems(2) show False by simp
  qed
  from Cons.prems(2) have "\<not> sublist m (p @ butlast m)"
    by (simp add: sublist_Cons_right)
  with Cons.IH Cons.prems(1) no_prefix show ?case by simp
qed

lemma after_first_decomp:
  "m \<noteq> [] \<Longrightarrow> after_first m s = Some r \<Longrightarrow>
     s = before_first m s @ m @ r \<and> \<not> sublist m (before_first m s @ butlast m)"
proof (induction s)
  case Nil
  then show ?case by simp
next
  case (Cons c cs)
  show ?case
  proof (cases "prefix m (c # cs)")
    case True
    with Cons.prems have r: "r = drop (length m) (c # cs)" by simp
    from True have "c # cs = m @ r" unfolding r by (metis append_eq_conv_conj prefixE)
    moreover have "\<not> sublist m (butlast m)"
      using Cons.prems(1) by (metis sublist_length_le length_butlast diff_less
          length_greater_0_conv less_one not_le)
    moreover from True have "before_first m (c # cs) = []" by simp
    ultimately show ?thesis by (metis append_Nil)
  next
    case False
    with Cons.prems have "after_first m cs = Some r" by simp
    with Cons.IH Cons.prems(1)
    have ih: "cs = before_first m cs @ m @ r" "\<not> sublist m (before_first m cs @ butlast m)"
      by simp_all
    have "\<not> prefix m (c # before_first m cs @ butlast m)"
    proof
      assume "prefix m (c # before_first m cs @ butlast m)"
      moreover have "prefix (c # before_first m cs @ butlast m) (c # before_first m cs @ m @ r)"
        using Cons.prems(1) by (metis Cons_prefix_Cons append_butlast_last_id append.assoc
            prefixI same_prefix_prefix)
      ultimately have "prefix m (c # before_first m cs @ m @ r)"
        by (rule prefix_order.trans)
      with ih(1) False show False by simp
    qed
    with ih False show ?thesis by (simp add: sublist_Cons_right)
  qed
qed

lemma after_first_present:
  "m \<noteq> [] \<Longrightarrow> \<exists>x. after_first m (a @ m @ rest) = Some (x @ rest)"
proof (induction a)
  case Nil
  then have "after_first m (m @ rest) = Some ([] @ rest)" by (cases m) simp_all
  then show ?case by (simp only: append_Nil) blast
next
  case (Cons c a)
  show ?case
  proof (cases "prefix m (c # a @ m @ rest)")
    case True
    have "drop (length m) ((c # a @ m) @ rest) = drop (length m) (c # a @ m) @ rest"
      by (simp only: drop_append) simp
    then have d: "drop (length m) (c # a @ m @ rest) = drop (length m) (c # a @ m) @ rest"
      by (simp only: append_Cons append_assoc)
    from True
    have "after_first m (c # a @ m @ rest) = Some (drop (length m) (c # a @ m @ rest))"
      by (simp only: after_first.simps if_True)
    with d have "after_first m (c # a @ m @ rest) = Some (drop (length m) (c # a @ m) @ rest)"
      by (simp only:)
    then show ?thesis by (simp only: append_Cons) blast
  next
    case False
    with Cons show ?thesis by simp
  qed
qed

lemma strip_empty_iff: "strip g = [] \<longleftrightarrow> list_all isspace g"
proof
  assume "strip g = []"
  then have "dropWhile isspace (rev (dropWhile isspace g)) = []"
    by (simp add: strip_def)
  then have all: "\<forall>c \<in> set (dropWhile isspace g). isspace c"
    by simp
  have "dropWhile isspace g = []"
  proof (rule ccontr)
    assume ne: "dropWhile isspace g \<noteq> []"
    then have "\<not> isspace (hd (dropWhile isspace g))" by (rule hd_dropWhile)
    moreover from ne have "hd (dropWhile isspace g) \<in> set (dropWhile isspace g)" by simp
    ultimately show False using all by blast
  qed
  then show "list_all isspace g" by (simp add: list_all_iff)
next
  assume "list_all isspace g"
  then have "dropWhile isspace g = []" by (simp add: list_all_iff)
  then show "strip g = []" unfolding strip_def by (simp only: rev.simps dropWhile.simps)
qed

section \<open>Each list of the parser comes from its own block\<close>

lemma dict_get_empty_sections: "dict_get empty_sections k [] = []"
  by (simp add: dict_get_def empty_sections_def)

lemma dict_get_update: "dict_get (AList.update n v secs) k d = (if k = n then v else dict_get secs k d)"
  by (simp add: dict_get_def update_conv')

lemma dict_get_set_points_other:
  "k \<noteq> name \<Longrightarrow> dict_get (set_points (m, name) secs) k d = dict_get secs k d"
  by (cases m) (simp_all add: set_points_def dict_get_update)

lemma dict_get_set_points_same:
  "dict_get (set_points (m, name) secs) name d
     = (case m of None \<Rightarrow> dict_get secs name d | Some g \<Rightarrow> cleaned_points g)"
  by (cases m) (simp_all add: set_points_def dict_get_update)

lemma parse_text_Summary:
  "dict_get (parse_text t) ''Summary'' [] =
     (case section_match ''**Summary**'' ''**Strengths**'' t of
        None \<Rightarrow> []
      | Some g \<Rightarrow> if strip g \<noteq> [] then [strip g] else [])"
proof -
  have "dict_get (parse_text t) ''Summary'' [] =
          dict_get (case section_match ''**Summary**'' ''**Strengths**'' t of
                      None \<Rightarrow> empty_sections
                    | Some g \<Rightarrow>
                        if strip g \<noteq> []
                        then AList.update ''Summary''
                               (dict_get empty_sections ''Summary'' [] @ [strip g]) empty_sections
                        else empty_sections) ''Summary'' []"
    by (simp add: parse_text_def Let_def dict_get_set_points_other)
  also have "\<dots> = (case section_match ''**Summary**'' ''**Strengths**'' t of
                        None \<Rightarrow> []
                      | Some g \<Rightarrow> if strip g \<noteq> [] then [strip g] else [])"
    by (cases "section_match ''**Summary**'' ''**Strengths**'' t")
      (simp_all add: dict_get_empty_sections dict_get_update)
  finally show ?thesis .
qed

lemma parse_text_Strengths:
  "dict_get (parse_text t) ''Strengths'' [] =
     (case section_match ''**Strengths**'' ''**Weaknesses**'' t of
        None \<Rightarrow> []
      | Some g \<Rightarrow> cleaned_points g)"
proof -
  let ?secs = "case section_match ''**Summary**'' ''**Strengths**'' t of
                 None \<Rightarrow> empty_sections
               | Some g \<Rightarrow>
                   if strip g \<noteq> []
                   then AList.update ''Summary''
                          (dict_get empty_sections ''Summary'' [] @ [strip g]) empty_sections
                   else empty_sections"
  have "dict_get (parse_text t) ''Strengths'' [] =
          (case section_match ''**Strengths**'' ''**Weaknesses**'' t of
             None \<Rightarrow> dict_get ?secs ''Strengths'' []
           | Some g \<Rightarrow> cleaned_points g)"
    by (simp add: parse_text_def Let_def dict_get_set_points_other dict_get_set_points_same)
  moreover have "dict_get ?secs ''Strengths'' [] = []"
    by (cases "section_match ''**Summary**'' ''**Strengths**'' t")
      (simp_all add: dict_get_empty_sections dict_get_update)
  ultimately show ?thesis by (simp only:)
qed

lemma section_match_cut:
  assumes "marker \<noteq> []" "nxt \<noteq> []"
    and "\<not> sublist marker (p @ butlast marker)" "\<not> sublist nxt (g @ butlast nxt)"
  shows "section_match marker nxt (p @ marker @ g @ nxt @ r) = Some g"
  using first_occurrence_cut [OF assms(1,3), of "g @ nxt @ r"]
    first_occurrence_cut [OF assms(2,4), of r]
  by (simp add: section_match_def)

lemma section_match_present:
  fixes marker nxt :: string
  assumes "marker \<noteq> []" "nxt \<noteq> []"
  shows "\<exists>p g r. a @ marker @ b @ nxt @ rest = p @ marker @ g @ nxt @ r
           \<and> \<not> sublist marker (p @ butlast marker) \<and> \<not> sublist nxt (g @ butlast nxt)"
proof -
  let ?t = "a @ marker @ b @ nxt @ rest"
  from after_first_present [OF assms(1), of a "b @ nxt @ rest"]
  obtain x where x: "after_first marker ?t = Some (x @ b @ nxt @ rest)" by auto
  let ?u = "x @ b @ nxt @ rest"
  from after_first_decomp [OF assms(1) x]
  obtain P where t: "?t = P @ marker @ ?u"
    and p: "\<not> sublist marker (P @ butlast marker)" by blast
  have "(x @ b) @ nxt @ rest = ?u" by simp
  with after_first_present [OF assms(2), of "x @ b" rest]
  obtain y where y: "after_first nxt ?u = Some (y @ rest)" by auto
  from after_first_decomp [OF assms(2) y]
  obtain G where u: "?u = G @ nxt @ y @ rest"
    and g: "\<not> sublist nxt (G @ butlast nxt)" by blast
  have "?t = P @ marker @ ?u" by (rule t)
  also have "P @ marker @ ?u = P @ marker @ (G @ nxt @ y @ rest)"
    by (rule arg_cong [where f = "\<lambda>z. P @ marker @ z"]) (rule u)
  finally have "?t = P @ marker @ G @ nxt @ (y @ rest)" .
  with p g show ?thesis by blast
qed

lemma not_sublist_suffix: "\<not> sublist m (x @ y) \<Longrightarrow> \<not> sublist m y"
  by (auto simp: sublist_append)

text \<open>
  Four markers each of which does not occur before its place: the four searches of the
  parser cut the text into the four blocks between them.
\<close>

lemma blocks_in_order:
  fixes m1 m2 m3 m4 :: string
  assumes ne: "m1 \<noteq> []" "m2 \<noteq> []" "m3 \<noteq> []" "m4 \<noteq> []"
    and h1: "\<not> sublist m1 (a @ butlast m1)"
    and h2: "\<not> sublist m2 (a @ m1 @ b @ butlast m2)"
    and h3: "\<not> sublist m3 (a @ m1 @ b @ m2 @ c @ butlast m3)"
    and h4: "\<not> sublist m4 (a @ m1 @ b @ m2 @ c @ m3 @ d @ butlast m4)"
  shows "section_match m1 m2 (a @ m1 @ b @ m2 @ c @ m3 @ d @ m4 @ e) = Some b"
    and "section_match m2 m3 (a @ m1 @ b @ m2 @ c @ m3 @ d @ m4 @ e) = Some c"
    and "section_match m3 m4 (a @ m1 @ b @ m2 @ c @ m3 @ d @ m4 @ e) = Some d"
    and "after_first m4 (a @ m1 @ b @ m2 @ c @ m3 @ d @ m4 @ e) = Some e"
proof -
  from h2 have g2: "\<not> sublist m2 (b @ butlast m2)"
    using not_sublist_suffix [of m2 "a @ m1" "b @ butlast m2"] by simp
  from h3 have g3: "\<not> sublist m3 (c @ butlast m3)"
    using not_sublist_suffix [of m3 "a @ m1 @ b @ m2" "c @ butlast m3"] by simp
  from h4 have g4: "\<not> sublist m4 (d @ butlast m4)"
    using not_sublist_suffix [of m4 "a @ m1 @ b @ m2 @ c @ m3" "d @ butlast m4"] by simp
  show "section_match m1 m2 (a @ m1 @ b @ m2 @ c @ m3 @ d @ m4 @ e) = Some b"
    by (rule section_match_cut [OF ne(1) ne(2) h1 g2])
  from h2 have "\<not> sublist m2 ((a @ m1 @ b) @ butlast m2)" by simp
  from section_match_cut [OF ne(2) ne(3) this g3, of "d @ m4 @ e"]
  show "section_match m2 m3 (a @ m1 @ b @ m2 @ c @ m3 @ d @ m4 @ e) = Some c" by simp
  from h3 have "\<not> sublist m3 ((a @ m1 @ b @ m2 @ c) @ butlast m3)" by simp
  from section_match_cut [OF ne(3) ne(4) this g4, of e]
  show "section_match m3 m4 (a @ m1 @ b @ m2 @ c @ m3 @ d @ m4 @ e) = Some d" by simp
  from h4 have "\<not> sublist m4 ((a @ m1 @ b @ m2 @ c @ m3 @ d) @ butlast m4)" by simp
  from first_occurrence_cut [OF ne(4) this, of e]
  show "after_first m4 (a @ m1 @ b @ m2 @ c @ m3 @ d @ m4 @ e) = Some e" by simp
qed

lemma parse_text_blocks:
  assumes "section_match ''**Summary**'' ''**Strengths**'' t = Some b"
    and "section_match ''**Strengths**'' ''**Weaknesses**'' t = Some c"
    and "section_match ''**Weaknesses**'' ''**Questions**'' t = Some d"
    and "after_first ''**Questions**'' t = Some e"
  shows "parse_text t =
           [(''Summary'', if list_all isspace b then [] else [strip b]),
            (''Strengths'', cleaned_points c), (''Weaknesses'', cleaned_points d),
            (''Questions'', cleaned_points e)]"
proof (cases "strip b = []")
  case True
  with assms show ?thesis
    by (simp add: parse_text_def Let_def set_points_def empty_sections_def
        flip: strip_empty_iff)
next
  case False
  with assms show ?thesis
    by (simp add: parse_text_def Let_def set_points_def empty_sections_def dict_get_def
        flip: strip_empty_iff)
qed

text \<open>
  C5, as amended. Let a text hold the four markers in canonical order. Then its Summary
  list is the trimmed block between the first Summary marker and the next Strengths
  marker, or empty when that block is blank; and its Strengths list is computed from the
  block between the first Strengths marker and the next Weaknesses marker alone:
  whatever follows that Weaknesses marker can be replaced by any other text without
  changing the Strengths list. When, moreover, no marker occurs before its place in the
  canonical order (as when each marker occurs once), every list comes from its own block
  alone: Summary from the block between the Summary and Strengths markers, Strengths
  from the block between the Strengths and Weaknesses markers, Weaknesses from the block
  between the Weaknesses and Questions markers, Questions from the text after the
  Questions marker. (That a marker does not begin before offset \<open>length p\<close> reads: it is
  no sublist of \<open>p\<close> followed by the marker without its last character.)
\<close>

theorem parse_review_sections_delimited:
  assumes t: "t = a @ ''**Summary**'' @ b @ ''**Strengths**'' @ c @ ''**Weaknesses**'' @ d
                    @ ''**Questions**'' @ e"
  shows "(\<exists>p g r. t = p @ ''**Summary**'' @ g @ ''**Strengths**'' @ r
            \<and> \<not> sublist ''**Summary**'' (p @ butlast ''**Summary**'')
            \<and> \<not> sublist ''**Strengths**'' (g @ butlast ''**Strengths**'')
            \<and> dict_get (parse_review (PyStr t)) ''Summary'' []
                = (if list_all isspace g then [] else [strip g]))
       \<and> (\<exists>p s r. t = p @ ''**Strengths**'' @ s @ ''**Weaknesses**'' @ r
            \<and> \<not> sublist ''**Strengths**'' (p @ butlast ''**Strengths**'')
            \<and> \<not> sublist ''**Weaknesses**'' (s @ butlast ''**Weaknesses**'')
            \<and> (\<forall>r'. dict_get (parse_review
                         (PyStr (p @ ''**Strengths**'' @ s @ ''**Weaknesses**'' @ r')))
                       ''Strengths'' []
                     = cleaned_points s))
       \<and> (\<not> sublist ''**Summary**'' (a @ butlast ''**Summary**'')
            \<and> \<not> sublist ''**Strengths**'' (a @ ''**Summary**'' @ b @ butlast ''**Strengths**'')
            \<and> \<not> sublist ''**Weaknesses**'' (a @ ''**Summary**'' @ b @ ''**Strengths**'' @ c @ butlast ''**Weaknesses**'')
            \<and> \<not> sublist ''**Questions**''
                  (a @ ''**Summary**'' @ b @ ''**Strengths**'' @ c @ ''**Weaknesses**'' @ d @ butlast ''**Questions**'')
            \<longrightarrow> parse_review (PyStr t) =
              [(''Summary'', if list_all isspace b then [] else [strip b]),
               (''Strengths'', cleaned_points c), (''Weaknesses'', cleaned_points d),
               (''Questions'', cleaned_points e)])"
proof (intro conjI impI)
  have m1: "''**Summary**'' \<noteq> []" and m2: "''**Strengths**'' \<noteq> []" by simp_all
  from section_match_present [OF m1 m2, of a b
      "c @ ''**Weaknesses**'' @ d @ ''**Questions**'' @ e"]
  obtain p g r where eq: "t = p @ ''**Summary**'' @ g @ ''**Strengths**'' @ r"
    and np: "\<not> sublist ''**Summary**'' (p @ butlast ''**Summary**'')"
    and ng: "\<not> sublist ''**Strengths**'' (g @ butlast ''**Strengths**'')"
    unfolding t by blast
  have "section_match ''**Summary**'' ''**Strengths**'' t = Some g"
    unfolding eq by (rule section_match_cut [OF m1 m2 np ng])
  then have "dict_get (parse_review (PyStr t)) ''Summary'' []
               = (if list_all isspace g then [] else [strip g])"
    by (simp add: parse_review_def parse_text_Summary strip_empty_iff)
  with eq np ng
  show "\<exists>p g r. t = p @ ''**Summary**'' @ g @ ''**Strengths**'' @ r
            \<and> \<not> sublist ''**Summary**'' (p @ butlast ''**Summary**'')
            \<and> \<not> sublist ''**Strengths**'' (g @ butlast ''**Strengths**'')
            \<and> dict_get (parse_review (PyStr t)) ''Summary'' []
                = (if list_all isspace g then [] else [strip g])"
    by blast
next
  have m2: "''**Strengths**'' \<noteq> []" and m3: "''**Weaknesses**'' \<noteq> []" by simp_all
  have t': "t = (a @ ''**Summary**'' @ b) @ ''**Strengths**'' @ c @ ''**Weaknesses**''
              @ (d @ ''**Questions**'' @ e)"
    unfolding t by (simp only: append_assoc)
  from section_match_present [OF m2 m3, of "a @ ''**Summary**'' @ b" c
      "d @ ''**Questions**'' @ e"]
  obtain p s r where eq: "t = p @ ''**Strengths**'' @ s @ ''**Weaknesses**'' @ r"
    and np: "\<not> sublist ''**Strengths**'' (p @ butlast ''**Strengths**'')"
    and ns: "\<not> sublist ''**Weaknesses**'' (s @ butlast ''**Weaknesses**'')"
    unfolding t' by blast
  have "dict_get (parse_review (PyStr (p @ ''**Strengths**'' @ s @ ''**Weaknesses**'' @ r')))
          ''Strengths'' [] = cleaned_points s" for r'
  proof -
    have "section_match ''**Strengths**'' ''**Weaknesses**''
            (p @ ''**Strengths**'' @ s @ ''**Weaknesses**'' @ r') = Some s"
      by (rule section_match_cut [OF m2 m3 np ns])
    then show ?thesis by (simp only: parse_review_def pyval.case parse_text_Strengths option.case)
  qed
  with eq np ns
  show "\<exists>p s r. t = p @ ''**Strengths**'' @ s @ ''**Weaknesses**'' @ r
            \<and> \<not> sublist ''**Strengths**'' (p @ butlast ''**Strengths**'')
            \<and> \<not> sublist ''**Weaknesses**'' (s @ butlast ''**Weaknesses**'')
            \<and> (\<forall>r'. dict_get (parse_review
                         (PyStr (p @ ''**Strengths**'' @ s @ ''**Weaknesses**'' @ r')))
                       ''Strengths'' []
                     = cleaned_points s)"
    by blast
next
  assume h: "\<not> sublist ''**Summary**'' (a @ butlast ''**Summary**'')
            \<and> \<not> sublist ''**Strengths**'' (a @ ''**Summary**'' @ b @ butlast ''**Strengths**'')
            \<and> \<not> sublist ''**Weaknesses**'' (a @ ''**Summary**'' @ b @ ''**Strengths**'' @ c @ butlast ''**Weaknesses**'')
            \<and> \<not> sublist ''**Questions**''
                  (a @ ''**Summary**'' @ b @ ''**Strengths**'' @ c @ ''**Weaknesses**'' @ d @ butlast ''**Questions**'')"
  have ne: "''**Summary**'' \<noteq> []" "''**Strengths**'' \<noteq> []" "''**Weaknesses**'' \<noteq> []"
    "''**Questions**'' \<noteq> []" by simp_all
  note cuts = blocks_in_order [OF ne conjunct1 [OF h] conjunct1 [OF conjunct2 [OF h]]
      conjunct1 [OF conjunct2 [OF conjunct2 [OF h]]]
      conjunct2 [OF conjunct2 [OF conjunct2 [OF h]]], of e]
  have "parse_text t =
          [(''Summary'', if list_all isspace b then [] else [strip b]),
           (''Strengths'', cleaned_points c), (''Weaknesses'', cleaned_points d),
           (''Questions'', cleaned_points e)]"
    unfolding t by (rule parse_text_blocks [OF cuts])
  then show "parse_review (PyStr t) =
              [(''Summary'', if list_all isspace b then [] else [strip b]),
               (''Strengths'', cleaned_points c), (''Weaknesses'', cleaned_points d),
               (''Questions'', cleaned_points e)]"
    by (simp only: parse_review_def pyval.case)
qed

theorem parse_review_sections_delimited_witness:
  "''**Summary**\<newline>A study.\<newline>**Strengths**\<newline>- Point 1\<newline>**Weaknesses**\<newline>- W\<newline>**Questions**\<newline>- Q1''
     = [] @ ''**Summary**'' @ ''\<newline>A study.\<newline>'' @ ''**Strengths**'' @ ''\<newline>- Point 1\<newline>''
         @ ''**Weaknesses**'' @ ''\<newline>- W\<newline>'' @ ''**Questions**'' @ ''\<newline>- Q1''
   \<and> (\<not> sublist ''**Summary**'' ([] @ butlast ''**Summary**'')
            \<and> \<not> sublist ''**Strengths**'' ([] @ ''**Summary**'' @ ''\<newline>A study.\<newline>'' @ butlast ''**Strengths**'')
            \<and> \<not> sublist ''**Weaknesses**'' ([] @ ''**Summary**'' @ ''\<newline>A study.\<newline>'' @ ''**Strengths**'' @ ''\<newline>- Point 1\<newline>'' @ butlast ''**Weaknesses**'')
            \<and> \<not> sublist ''**Questions**''
                  ([] @ ''**Summary**'' @ ''\<newline>A study.\<newline>'' @ ''**Strengths**'' @ ''\<newline>- Point 1\<newline>'' @ ''**Weaknesses**'' @ ''\<newline>- W\<newline>'' @ butlast ''**Questions**''))
   \<and> ((\<exists>p g r. ''**Summary**\<newline>A study.\<newline>**Strengths**\<newline>- Point 1\<newline>**Weaknesses**\<newline>- W\<newline>**Questions**\<newline>- Q1'' = p @ ''**Summary**'' @ g @ ''**Strengths**'' @ r
            \<and> \<not> sublist ''**Summary**'' (p @ butlast ''**Summary**'')
            \<and> \<not> sublist ''**Strengths**'' (g @ butlast ''**Strengths**'')
            \<and> dict_get (parse_review (PyStr ''**Summary**\<newline>A study.\<newline>**Strengths**\<newline>- Point 1\<newline>**Weaknesses**\<newline>- W\<newline>**Questions**\<newline>- Q1'')) ''Summary'' []
                = (if list_all isspace g then [] else [strip g]))
       \<and> (\<exists>p s r. ''**Summary**\<newline>A study.\<newline>**Strengths**\<newline>- Point 1\<newline>**Weaknesses**\<newline>- W\<newline>**Questions**\<newline>- Q1'' = p @ ''**Strengths**'' @ s @ ''**Weaknesses**'' @ r
            \<and> \<not> sublist ''**Strengths**'' (p @ butlast ''**Strengths**'')
            \<and> \<not> sublist ''**Weaknesses**'' (s @ butlast ''**Weaknesses**'')
            \<and> (\<forall>r'. dict_get (parse_review
                         (PyStr (p @ ''**Strengths**'' @ s @ ''**Weaknesses**'' @ r')))
                       ''Strengths'' []
                     = cleaned_points s)))
   \<and> parse_review (PyStr ''**Summary**\<newline>A study.\<newline>**Strengths**\<newline>- Point 1\<newline>**Weaknesses**\<newline>- W\<newline>**Questions**\<newline>- Q1'')
       = [(''Summary'', [''A study.'']), (''Strengths'', [''Point 1'']),
          (''Weaknesses'', [''W'']), (''Questions'', [''Q1''])]"
proof -
  have h: "''**Summary**\<newline>A study.\<newline>**Strengths**\<newline>- Point 1\<newline>**Weaknesses**\<newline>- W\<newline>**Questions**\<newline>- Q1''
     = [] @ ''**Summary**'' @ ''\<newline>A study.\<newline>'' @ ''**Strengths**'' @ ''\<newline>- Point 1\<newline>''
         @ ''**Weaknesses**'' @ ''\<newline>- W\<newline>'' @ ''**Questions**'' @ ''\<newline>- Q1''"
    by simp
  have hs: "\<not> sublist ''**Summary**'' ([] @ butlast ''**Summary**'')
            \<and> \<not> sublist ''**Strengths**'' ([] @ ''**Summary**'' @ ''\<newline>A study.\<newline>'' @ butlast ''**Strengths**'')
            \<and> \<not> sublist ''**Weaknesses**'' ([] @ ''**Summary**'' @ ''\<newline>A study.\<newline>'' @ ''**Strengths**'' @ ''\<newline>- Point 1\<newline>'' @ butlast ''**Weaknesses**'')
            \<and> \<not> sublist ''**Questions**''
                  ([] @ ''**Summary**'' @ ''\<newline>A study.\<newline>'' @ ''**Strengths**'' @ ''\<newline>- Point 1\<newline>'' @ ''**Weaknesses**'' @ ''\<newline>- W\<newline>'' @ butlast ''**Questions**'')"
    by code_simp
  have ev: "(if list_all isspace ''\<newline>A study.\<newline>'' then [] else [strip ''\<newline>A study.\<newline>'']) = [''A study.'']"
    "cleaned_points ''\<newline>- Point 1\<newline>'' = [''Point 1'']"
    "cleaned_points ''\<newline>- W\<newline>'' = [''W'']"
    "cleaned_points ''\<newline>- Q1'' = [''Q1'']"
    by code_simp+
  note th = parse_review_sections_delimited [OF h]
  have ab: "(\<exists>p g r. ''**Summary**\<newline>A study.\<newline>**Strengths**\<newline>- Point 1\<newline>**Weaknesses**\<newline>- W\<newline>**Questions**\<newline>- Q1'' = p @ ''**Summary**'' @ g @ ''**Strengths**'' @ r
            \<and> \<not> sublist ''**Summary**'' (p @ butlast ''**Summary**'')
            \<and> \<not> sublist ''**Strengths**'' (g @ butlast ''**Strengths**'')
            \<and> dict_get (parse_review (PyStr ''**Summary**\<newline>A study.\<newline>**Strengths**\<newline>- Point 1\<newline>**Weaknesses**\<newline>- W\<newline>**Questions**\<newline>- Q1'')) ''Summary'' []
                = (if list_all isspace g then [] else [strip g]))
       \<and> (\<exists>p s r. ''**Summary**\<newline>A study.\<newline>**Strengths**\<newline>- Point 1\<newline>**Weaknesses**\<newline>- W\<newline>**Questions**\<newline>- Q1'' = p @ ''**Strengths**'' @ s @ ''**Weaknesses**'' @ r
            \<and> \<not> sublist ''**Strengths**'' (p @ butlast ''**Strengths**'')
            \<and> \<not> sublist ''**Weaknesses**'' (s @ butlast ''**Weaknesses**'')
            \<and> (\<forall>r'. dict_get (parse_review
                         (PyStr (p @ ''**Strengths**'' @ s @ ''**Weaknesses**'' @ r')))
                       ''Strengths'' []
                     = cleaned_points s))"
    by (rule conjI [OF conjunct1 [OF th] conjunct1 [OF conjunct2 [OF th]]])
  from th hs have "parse_review (PyStr ''**Summary**\<newline>A study.\<newline>**Strengths**\<newline>- Point 1\<newline>**Weaknesses**\<newline>- W\<newline>**Questions**\<newline>- Q1'') =
              [(''Summary'', if list_all isspace ''\<newline>A study.\<newline>'' then [] else [strip ''\<newline>A study.\<newline>'']),
               (''Strengths'', cleaned_points ''\<newline>- Point 1\<newline>''), (''Weaknesses'', cleaned_points ''\<newline>- W\<newline>''),
               (''Questions'', cleaned_points ''\<newline>- Q1'')]"
    by (rule mp [OF conjunct2 [OF conjunct2]])
  then have full: "parse_review (PyStr ''**Summary**\<newline>A study.\<newline>**Strengths**\<newline>- Point 1\<newline>**Weaknesses**\<newline>- W\<newline>**Questions**\<newline>- Q1'')
       = [(''Summary'', [''A study.'']), (''Strengths'', [''Point 1'']),
          (''Weaknesses'', [''W'']), (''Questions'', [''Q1''])]"
    unfolding ev .
  show ?thesis
    by (rule conjI [OF h conjI [OF hs conjI [OF ab full]]])
qed

text \<open>
  C5, as stated, fails twice on texts with the four markers in canonical order. A blank
  Summary block gives an empty Summary list. And a marker that also occurs before its
  place draws other sections into its list: with a Weaknesses marker ahead of the
  Summary marker, the Weaknesses list holds the Summary text and the Strengths point.
\<close>

theorem blank_summary_and_early_marker:
  "''**Summary**\<newline>\<newline>**Strengths**\<newline>- P\<newline>**Weaknesses**\<newline>- W\<newline>**Questions**\<newline>- Q''
       = [] @ ''**Summary**'' @ ''\<newline>\<newline>'' @ ''**Strengths**'' @ ''\<newline>- P\<newline>''
           @ ''**Weaknesses**'' @ ''\<newline>- W\<newline>'' @ ''**Questions**'' @ ''\<newline>- Q''
   \<and> parse_review (PyStr ''**Summary**\<newline>\<newline>**Strengths**\<newline>- P\<newline>**Weaknesses**\<newline>- W\<newline>**Questions**\<newline>- Q'')
     = [(''Summary'', []), (''Strengths'', [''P'']), (''Weaknesses'', [''W'']),
        (''Questions'', [''Q''])]
   \<and> ''**Weaknesses**\<newline>- W0\<newline>**Summary**\<newline>S\<newline>**Strengths**\<newline>- P\<newline>**Weaknesses**\<newline>- W\<newline>**Questions**\<newline>- Q''
       = ''**Weaknesses**\<newline>- W0\<newline>'' @ ''**Summary**'' @ ''\<newline>S\<newline>'' @ ''**Strengths**''
           @ ''\<newline>- P\<newline>'' @ ''**Weaknesses**'' @ ''\<newline>- W\<newline>'' @ ''**Questions**'' @ ''\<newline>- Q''
   \<and> parse_review (PyStr ''**Weaknesses**\<newline>- W0\<newline>**Summary**\<newline>S\<newline>**Strengths**\<newline>- P\<newline>**Weaknesses**\<newline>- W\<newline>**Questions**\<newline>- Q'')
     = [(''Summary'', [''S'']), (''Strengths'', [''P'']),
        (''Weaknesses'',
           [''W0\<newline>**Summary**\<newline>S\<newline>**Strengths**'', ''P\<newline>**Weaknesses**'', ''W'']),
        (''Questions'', [''Q''])]"
  by code_simp

section \<open>Locating a paper: the first collection wins\<close>

lemma dict_has_iff: "dict_has d k \<longleftrightarrow> k \<in> fst ` set d"
proof (cases "map_of d k")
  case None
  then have "k \<notin> fst ` set d" by (simp add: map_of_eq_None_iff)
  with None show ?thesis by (simp add: dict_has_def)
next
  case (Some a)
  then have "(k, a) \<in> set d" by (rule map_of_SomeD)
  then have "k \<in> fst ` set d" by force
  with Some show ?thesis by (simp add: dict_has_def)
qed

text \<open>
  C7. A paper id that is a key of either COLM dataset resolves to COLM, with the COLM
  PDF path and the two COLM payloads (\<open>PyNone\<close> for one that is absent), whether or not
  NeurIPS has the id too; an id only NeurIPS has resolves to NeurIPS in the same way; an
  id that neither has gives four times \<open>None\<close>.
\<close>

theorem get_paper_details_first_collection:
  "(pid \<in> fst ` set (v5_3 (colm ds)) \<or> pid \<in> fst ` set (v5_5 (colm ds)) \<longrightarrow>
      get_paper_details pid ds =
        (Some (Path_div ''pdfs_colm'' (pid @ ''.pdf'')),
         dict_get (v5_3 (colm ds)) pid PyNone, dict_get (v5_5 (colm ds)) pid PyNone,
         Some ''COLM''))
   \<and> (pid \<notin> fst ` set (v5_3 (colm ds)) \<and> pid \<notin> fst ` set (v5_5 (colm ds))
       \<and> (pid \<in> fst ` set (v5_3 (neurips ds)) \<or> pid \<in> fst ` set (v5_5 (neurips ds))) \<longrightarrow>
      get_paper_details pid ds =
        (Some (Path_div ''pdfs_neurips'' (pid @ ''.pdf'')),
         dict_get (v5_3 (neurips ds)) pid PyNone, dict_get (v5_5 (neurips ds)) pid PyNone,
         Some ''NeurIPS''))
   \<and> (pid \<notin> fst ` set (v5_3 (colm ds)) \<and> pid \<notin> fst ` set (v5_5 (colm ds))
       \<and> pid \<notin> fst ` set (v5_3 (neurips ds)) \<and> pid \<notin> fst ` set (v5_5 (neurips ds)) \<longrightarrow>
      get_paper_details pid ds = (None, PyNone, PyNone, None))"
  by (simp add: get_paper_details_def dict_has_iff COLM_PDF_DIR_def NEURIPS_PDF_DIR_def)

theorem get_paper_details_first_collection_witness:
  "get_paper_details ''p1''
     \<lparr>colm = \<lparr>v5_3 = [(''p1'', PyStr ''a'')], v5_5 = []\<rparr>,
      neurips = \<lparr>v5_3 = [(''p1'', PyStr ''b''), (''p2'', PyStr ''c'')], v5_5 = []\<rparr>\<rparr>
     = (Some (Path_div ''pdfs_colm'' ''p1.pdf''), PyStr ''a'', PyNone, Some ''COLM'')
   \<and> get_paper_details ''p2''
     \<lparr>colm = \<lparr>v5_3 = [(''p1'', PyStr ''a'')], v5_5 = []\<rparr>,
      neurips = \<lparr>v5_3 = [(''p1'', PyStr ''b''), (''p2'', PyStr ''c'')], v5_5 = []\<rparr>\<rparr>
     = (Some (Path_div ''pdfs_neurips'' ''p2.pdf''), PyStr ''c'', PyNone, Some ''NeurIPS'')
   \<and> get_paper_details ''p3''
     \<lparr>colm = \<lparr>v5_3 = [(''p1'', PyStr ''a'')], v5_5 = []\<rparr>,
      neurips = \<lparr>v5_3 = [(''p1'', PyStr ''b''), (''p2'', PyStr ''c'')], v5_5 = []\<rparr>\<rparr>
     = (None, PyNone, PyNone, None)"
  using get_paper_details_first_collection [of "''p1''"
      "\<lparr>colm = \<lparr>v5_3 = [(''p1'', PyStr ''a'')], v5_5 = []\<rparr>,
        neurips = \<lparr>v5_3 = [(''p1'', PyStr ''b''), (''p2'', PyStr ''c'')], v5_5 = []\<rparr>\<rparr>"]
    get_paper_details_first_collection [of "''p2''"
      "\<lparr>colm = \<lparr>v5_3 = [(''p1'', PyStr ''a'')], v5_5 = []\<rparr>,
        neurips = \<lparr>v5_3 = [(''p1'', PyStr ''b''), (''p2'', PyStr ''c'')], v5_5 = []\<rparr>\<rparr>"]
    get_paper_details_first_collection [of "''p3''"
      "\<lparr>colm = \<lparr>v5_3 = [(''p1'', PyStr ''a'')], v5_5 = []\<rparr>,
        neurips = \<lparr>v5_3 = [(''p1'', PyStr ''b''), (''p2'', PyStr ''c'')], v5_5 = []\<rparr>\<rparr>"]
  by (simp add: dict_get_def)

section \<open>The blind order is bound once\<close>

lemma review_order_for_keeps:
  "ss k = Some v \<Longrightarrow> snd (review_order_for j pid ss) k = Some v"
  by (auto simp: review_order_for_def Let_def split: option.splits)

lemma accesses_keeps: "ss k = Some v \<Longrightarrow> accesses xs ss k = Some v"
proof (induction xs arbitrary: ss)
  case Nil
  then show ?case by simp
next
  case (Cons x xs)
  obtain j pid where x: "x = (j, pid)" by (cases x)
  from Cons.prems have "snd (review_order_for j pid ss) k = Some v"
    by (rule review_order_for_keeps)
  then show ?case using x by (simp add: Cons.IH)
qed

lemma review_order_for_binds:
  "snd (review_order_for j pid ss) (''order_'' @ pid) = Some (fst (review_order_for j pid ss))"
  by (auto simp: review_order_for_def Let_def split: option.splits)

lemma review_order_for_bound:
  "ss (''order_'' @ pid) = Some v \<Longrightarrow> review_order_for j pid ss = (v, ss)"
  by (simp add: review_order_for_def)

text \<open>
  C10. The first access for a paper id, on a session state that has no binding for it,
  chooses the binding from the draw (draw 0 exchanges the two variant identifiers, any
  other draw leaves them as they are) and writes it under the key \<open>order_\<close> followed by
  the paper id; an access on a state that has a binding returns it and changes nothing.
  So after the first access, whatever accesses follow in the session (for this or other
  papers, with whatever draws), the key still holds the binding of the first access, and
  a further access for that id returns that binding and leaves the session state as it
  is.
\<close>

theorem review_order_bound_once:
  "(ss (''order_'' @ pid) = None \<longrightarrow>
      review_order_for j pid ss =
        (PyList (if j = 0 then [PyStr ''5_5'', PyStr ''5_3'']
                 else [PyStr ''5_3'', PyStr ''5_5'']),
         ss(''order_'' @ pid \<mapsto>
              PyList (if j = 0 then [PyStr ''5_5'', PyStr ''5_3'']
                      else [PyStr ''5_3'', PyStr ''5_5'']))))
   \<and> (ss (''order_'' @ pid) = Some v \<longrightarrow> review_order_for j pid ss = (v, ss))
   \<and> accesses xs (snd (review_order_for j pid ss)) (''order_'' @ pid)
       = Some (fst (review_order_for j pid ss))
   \<and> review_order_for j' pid (accesses xs (snd (review_order_for j pid ss)))
       = (fst (review_order_for j pid ss), accesses xs (snd (review_order_for j pid ss)))"
proof (intro conjI impI)
  assume "ss (''order_'' @ pid) = None"
  then show "review_order_for j pid ss =
        (PyList (if j = 0 then [PyStr ''5_5'', PyStr ''5_3'']
                 else [PyStr ''5_3'', PyStr ''5_5'']),
         ss(''order_'' @ pid \<mapsto>
              PyList (if j = 0 then [PyStr ''5_5'', PyStr ''5_3'']
                      else [PyStr ''5_3'', PyStr ''5_5''])))"
    by (simp add: review_order_for_def Let_def)
next
  assume "ss (''order_'' @ pid) = Some v"
  then show "review_order_for j pid ss = (v, ss)"
    by (rule review_order_for_bound)
next
  show kept: "accesses xs (snd (review_order_for j pid ss)) (''order_'' @ pid)
          = Some (fst (review_order_for j pid ss))"
    by (rule accesses_keeps) (rule review_order_for_binds)
  then show "review_order_for j' pid (accesses xs (snd (review_order_for j pid ss)))
     = (fst (review_order_for j pid ss), accesses xs (snd (review_order_for j pid ss)))"
    by (rule review_order_for_bound)
qed

theorem review_order_bound_once_witness:
  "(Map.empty :: session_state) (''order_'' @ ''p1'') = None
   \<and> review_order_for 0 ''p1'' Map.empty
       = (PyList [PyStr ''5_5'', PyStr ''5_3''],
          [''order_p1'' \<mapsto> PyList [PyStr ''5_5'', PyStr ''5_3'']])
   \<and> review_order_for 1 ''p1'' Map.empty
       = (PyList [PyStr ''5_3'', PyStr ''5_5''],
          [''order_p1'' \<mapsto> PyList [PyStr ''5_3'', PyStr ''5_5'']])
   \<and> [''order_p1'' \<mapsto> PyList [PyStr ''5_5'', PyStr ''5_3'']] (''order_'' @ ''p1'')
       = Some (PyList [PyStr ''5_5'', PyStr ''5_3''])
   \<and> review_order_for 1 ''p1'' [''order_p1'' \<mapsto> PyList [PyStr ''5_5'', PyStr ''5_3'']]
       = (PyList [PyStr ''5_5'', PyStr ''5_3''],
          [''order_p1'' \<mapsto> PyList [PyStr ''5_5'', PyStr ''5_3'']])
   \<and> fst (review_order_for 1 ''p1''
            (accesses [(1, ''p2''), (1, ''p1'')] (snd (review_order_for 0 ''p1'' Map.empty))))
       = PyList [PyStr ''5_5'', PyStr ''5_3'']
   \<and> fst (review_order_for 0 ''p1''
            (accesses [(0, ''p2''), (0, ''p1'')] (snd (review_order_for 1 ''p1'' Map.empty))))
       = PyList [PyStr ''5_3'', PyStr ''5_5'']"
proof -
  have e: "(Map.empty :: session_state) (''order_'' @ ''p1'') = None" by simp
  have b: "[''order_p1'' \<mapsto> PyList [PyStr ''5_5'', PyStr ''5_3'']] (''order_'' @ ''p1'')
             = Some (PyList [PyStr ''5_5'', PyStr ''5_3''])" by simp
  note w0 = review_order_bound_once
    [where ss = Map.empty and pid = "''p1''" and j = 0 and j' = 1
       and xs = "[(1, ''p2''), (1, ''p1'')]" and v = PyNone]
  note w1 = review_order_bound_once
    [where ss = Map.empty and pid = "''p1''" and j = 1 and j' = 0
       and xs = "[(0, ''p2''), (0, ''p1'')]" and v = PyNone]
  note w2 = review_order_bound_once
    [where ss = "[''order_p1'' \<mapsto> PyList [PyStr ''5_5'', PyStr ''5_3'']]" and pid = "''p1''"
       and j = 1 and j' = 0 and xs = "[]" and v = "PyList [PyStr ''5_5'', PyStr ''5_3'']"]
  from w0 e have f0: "review_order_for 0 ''p1'' Map.empty
       = (PyList [PyStr ''5_5'', PyStr ''5_3''],
          [''order_p1'' \<mapsto> PyList [PyStr ''5_5'', PyStr ''5_3'']])"
    by simp
  from w1 e have f1: "review_order_for 1 ''p1'' Map.empty
       = (PyList [PyStr ''5_3'', PyStr ''5_5''],
          [''order_p1'' \<mapsto> PyList [PyStr ''5_3'', PyStr ''5_5'']])"
    by simp
  from w2 b have f2: "review_order_for 1 ''p1''
         [''order_p1'' \<mapsto> PyList [PyStr ''5_5'', PyStr ''5_3'']]
       = (PyList [PyStr ''5_5'', PyStr ''5_3''],
          [''order_p1'' \<mapsto> PyList [PyStr ''5_5'', PyStr ''5_3'']])"
    by simp
  from w0 [THEN conjunct2, THEN conjunct2, THEN conjunct2] f0 have l0: "fst (review_order_for 1 ''p1''
            (accesses [(1, ''p2''), (1, ''p1'')] (snd (review_order_for 0 ''p1'' Map.empty))))
       = PyList [PyStr ''5_5'', PyStr ''5_3'']"
    by simp
  from w1 [THEN conjunct2, THEN conjunct2, THEN conjunct2] f1 have l1: "fst (review_order_for 0 ''p1''
            (accesses [(0, ''p2''), (0, ''p1'')] (snd (review_order_for 1 ''p1'' Map.empty))))
       = PyList [PyStr ''5_3'', PyStr ''5_5'']"
    by simp
  from e f0 f1 b f2 l0 l1 show ?thesis by (intro conjI)
qed

section \<open>The rating form under the two bindings\<close>





section \<open>The text parsed when the form is drawn and when it is submitted\<close>

text \<open>
  On a string payload, and on a dict payload whose \<open>inference_review\<close> is a non-empty
  string, both places parse the same text.
\<close>

lemma render_submit_text_agree:
  "render_text (PyStr s) = submit_text (PyStr s)"
  "dict_get d ''inference_review'' (PyStr []) = PyStr s \<Longrightarrow> s \<noteq> [] \<Longrightarrow>
     render_text (PyDict d) = submit_text (PyDict d)"
  by (simp_all add: render_text_def submit_text_def py_or_def)

text \<open>
  C1. The claim fails on a dict payload that holds its text under \<open>prediction\<close> only:
  the form parses that text (one Summary, one Strengths point), the submit block parses
  the empty string (four empty lists). It fails on an absent payload too: the form
  parses the empty string, the submit block parses \<open>None\<close> and gets the placeholder
  Summary.
\<close>

theorem render_submit_parse_differ:
  "parse_review (render_text (PyDict [(''prediction'',
        PyStr ''**Summary**\<newline>S\<newline>**Strengths**\<newline>- P'')]))
     = [(''Summary'', [''S'']), (''Strengths'', [''P'']), (''Weaknesses'', []), (''Questions'', [])]
   \<and> parse_review (submit_text (PyDict [(''prediction'',
        PyStr ''**Summary**\<newline>S\<newline>**Strengths**\<newline>- P'')]))
     = [(''Summary'', []), (''Strengths'', []), (''Weaknesses'', []), (''Questions'', [])]
   \<and> parse_review (render_text PyNone)
     = [(''Summary'', []), (''Strengths'', []), (''Weaknesses'', []), (''Questions'', [])]
   \<and> parse_review (submit_text PyNone)
     = [(''Summary'', [''Review not available.'']), (''Strengths'', []), (''Weaknesses'', []),
        (''Questions'', [])]"
  by code_simp

section \<open>Submission writes all rows or none\<close>

lemma parse_review_keys:
  "map fst (parse_review v) = [''Summary'', ''Strengths'', ''Weaknesses'', ''Questions'']"
proof (cases v)
  case (PyStr t)
  have sp: "map fst (set_points ms secs) = map fst secs" if "snd ms \<in> set (map fst secs)"
    for ms secs
    using that by (cases "fst ms") (simp_all add: set_points_def update_keys)
  let ?secs = "case section_match ''**Summary**'' ''**Strengths**'' t of
                 None \<Rightarrow> empty_sections
               | Some g \<Rightarrow>
                   if strip g \<noteq> []
                   then AList.update ''Summary''
                          (dict_get empty_sections ''Summary'' [] @ [strip g]) empty_sections
                   else empty_sections"
  have k: "map fst ?secs = [''Summary'', ''Strengths'', ''Weaknesses'', ''Questions'']"
    by (cases "section_match ''**Summary**'' ''**Strengths**'' t")
      (simp_all add: empty_sections_def update_keys)
  have "map fst (parse_text t) = map fst ?secs"
    by (simp add: parse_text_def Let_def sp k)
  with k PyStr show ?thesis by (simp add: parse_review_def)
qed (simp_all add: parse_review_def)

text \<open>The default of \<^verbatim>\<open>parsed_sub.get("Summary", [""])\<close> is never taken.\<close>

lemma summary_default_unused:
  "dict_get (parse_review v) ''Summary'' dflt = dict_get (parse_review v) ''Summary'' []"
proof -
  have "''Summary'' \<in> set (map fst (parse_review v))" by (simp only: parse_review_keys) simp
  then have "map_of (parse_review v) ''Summary'' \<noteq> None"
    by (simp only: map_of_eq_None_iff set_map) simp
  then show ?thesis by (auto simp: dict_get_def)
qed

text \<open>So the lookup raises exactly when the parsed Summary list is empty.\<close>

lemma summary_lookup_raises_iff:
  "item0 (dict_get (parse_review v) ''Summary'' [[]]) = Inl IndexError
     \<longleftrightarrow> dict_get (parse_review v) ''Summary'' [] = []"
  by (simp add: summary_default_unused [of v "[[]]"] item0_def split: list.splits)

text \<open>A control that holds one of the options of its select box and is not unrated
  holds one of the four agreement levels.\<close>

lemma rated_option_is_level:
  assumes "v \<in> PyStr ` set GRADING_OPTIONS" and "\<not> unrated v"
  shows "v \<in> PyStr ` {''Completely Disagree'', ''Mostly Disagree'', ''Mostly Agree'',
                       ''Completely Agree''}"
proof -
  from assms(1) obtain s where v: "v = PyStr s" and s: "s \<in> set GRADING_OPTIONS" by blast
  from assms(2) have "s \<noteq> ''Select...''"
    unfolding v unrated_def by (cases "s = []") auto
  moreover from s have "s = ''Select...'' \<or> s = ''Completely Disagree''
      \<or> s = ''Mostly Disagree'' \<or> s = ''Mostly Agree'' \<or> s = ''Completely Agree''"
    by (simp only: GRADING_OPTIONS_def list.set insert_iff empty_iff simp_thms)
  ultimately have "s \<in> {''Completely Disagree'', ''Mostly Disagree'', ''Mostly Agree'',
                         ''Completely Agree''}"
    by (simp only: insert_iff empty_iff simp_thms)
  then show ?thesis unfolding v by (rule imageI)
qed



lemma length_point_rows: "length (point_rows sub r sec k ips) = length ips"
  by (induction sub r sec k ips rule: point_rows.induct) simp_all

lemma point_index_point_rows: "map point_index (point_rows sub r sec k ips) = map fst ips"
  by (induction sub r sec k ips rule: point_rows.induct) (simp_all add: make_record_def)

lemma point_text_point_rows: "map point_text (point_rows sub r sec k ips) = map snd ips"
  by (induction sub r sec k ips rule: point_rows.induct) (simp_all add: make_record_def)












lemma length_variant_rows:
  "length (variant_rows sub r k) =
     1 + length (points_at_submit sub r ''Strengths'')
       + length (points_at_submit sub r ''Weaknesses'')
       + length (points_at_submit sub r ''Questions'')"
  by (simp add: variant_rows_def Let_def length_point_rows)

lemma point_index_variant_rows:
  "map point_index (variant_rows sub r k) =
     0 # [0..<length (points_at_submit sub r ''Strengths'')]
       @ [0..<length (points_at_submit sub r ''Weaknesses'')]
       @ [0..<length (points_at_submit sub r ''Questions'')]"
  by (simp add: variant_rows_def Let_def point_index_point_rows map_fst_enumerate
      make_record_def)

lemma save_results_appends:
  "\<exists>c. save_results rows f = Some c
       \<and> csv_rows c = (case f of None \<Rightarrow> [] | Some c0 \<Rightarrow> csv_rows c0) @ rows"
  by (cases f) (simp_all add: save_results_def)

section \<open>The same ratings under the other binding: what the page shows\<close>













section \<open>Submitting when a parsed Summary list is empty\<close>

text \<open>
  C4. The lookup \<^verbatim>\<open>parsed_sub.get("Summary", [""])\<close> never takes its default, since the
  parser always sets the key (\<open>summary_default_unused\<close>); on a text without a Summary
  block it returns the empty list and \<^verbatim>\<open>[0]\<close> raises IndexError. Here variant 5_3 is the
  text "Good paper." and its Summary control holds "Mostly Agree": the form is shown, the
  control counts as rated, and the loop over the variants raises.
\<close>

theorem summary_row_index_error:
  "dict_get (parse_review (submit_text (PyStr ''Good paper.''))) ''Summary'' [[]] = []
   \<and> item0 (dict_get (parse_review (submit_text (PyStr ''Good paper.''))) ''Summary'' [[]])
       = Inl IndexError
   \<and> form_shown (PyStr ''Good paper.'') (PyStr ''**Summary**\<newline>S'')
   \<and> unrated (session_get [''p1_5_3_Summary'' \<mapsto> PyStr ''Mostly Agree'']
                 (summary_key ''p1'' ''5_3'')) = False
   \<and> variants_loop
        \<lparr>now = (\<lambda>k. ''2026-01-01T00:00:00''), current_user_id = ''u1'',
         selected_paper_id = ''p1'',
         reviews_map = make_reviews_map (PyStr ''Good paper.'') (PyStr ''**Summary**\<newline>S''),
         session = [''p1_5_3_Summary'' \<mapsto> PyStr ''Mostly Agree'']\<rparr>
        [''5_3'', ''5_5''] ([], True)
       = Inl IndexError"
  by code_simp

text \<open>
  C3. Every control of both variants holds a real level (the Summary of 5_3, the Summary
  and the one Strengths point of 5_5), so three rows are due; the submit block raises
  IndexError on the Summary row of 5_3 and writes nothing. (When neither parsed Summary
  list is empty the rows are written as claimed: \<open>submit_all_rated_rows\<close>,
  \<open>length_variant_rows\<close>, \<open>point_index_variant_rows\<close>.)
\<close>

theorem submit_all_rated_index_error:
  "form_shown (PyStr ''Good paper.'') (PyStr ''**Summary**\<newline>S\<newline>**Strengths**\<newline>- P'')
   \<and> submit
        \<lparr>now = (\<lambda>k. ''2026-01-01T00:00:00''), current_user_id = ''u1'',
         selected_paper_id = ''p1'',
         reviews_map = make_reviews_map (PyStr ''Good paper.'')
                         (PyStr ''**Summary**\<newline>S\<newline>**Strengths**\<newline>- P''),
         session = [''p1_5_3_Summary'' \<mapsto> PyStr ''Mostly Agree'',
                    ''p1_5_5_Summary'' \<mapsto> PyStr ''Completely Agree'',
                    ''p1_5_5_Strengths_0'' \<mapsto> PyStr ''Mostly Disagree'']\<rparr>
        None
       = Inl IndexError"
  by code_simp

text \<open>
  C2. The Summary control of 5_5 still holds "Select...", so the claim asks for the
  incompleteness message; the submit block raises IndexError on the Summary row of 5_3
  before it reaches that control, and shows no message of its own. (That no row is
  written whenever a control is unrated holds all the same:
  \<open>submit_unrated_writes_nothing\<close>.)
\<close>

theorem submit_unrated_index_error:
  "unrated (session_get [''p1_5_3_Summary'' \<mapsto> PyStr ''Mostly Agree'',
                         ''p1_5_5_Summary'' \<mapsto> PyStr ''Select...'']
              (summary_key ''p1'' ''5_5''))
   \<and> submit
        \<lparr>now = (\<lambda>k. ''2026-01-01T00:00:00''), current_user_id = ''u1'',
         selected_paper_id = ''p1'',
         reviews_map = make_reviews_map (PyStr ''Good paper.'') (PyStr ''**Summary**\<newline>S''),
         session = [''p1_5_3_Summary'' \<mapsto> PyStr ''Mostly Agree'',
                    ''p1_5_5_Summary'' \<mapsto> PyStr ''Select...'']\<rparr>
        None
       = Inl IndexError"
  by code_simp


text \<open>
  The controls the submit block asks for are those of its own parse. A payload whose
  \<^verbatim>\<open>inference_review\<close> is \<^verbatim>\<open>None\<close> and whose \<^verbatim>\<open>prediction\<close> holds the review is drawn from
  the prediction, with a control for its Questions point, and submitted as the
  placeholder review: with both Summary controls rated, the two placeholder rows are
  written although the Questions control shown still holds "Select...".
\<close>

lemma rows_written_with_shown_control_unset:
  "render_tab ''p1''
     (make_reviews_map
        (PyDict [(''inference_review'', PyNone),
                 (''prediction'', PyStr ''**Summary**\<newline>S\<newline>**Questions**\<newline>- Q'')])
        (PyStr ''**Summary**\<newline>T'')) ''5_3''
     = [Markdown ''##### Summary'', Markdown ''S\<newline>**Questions**\<newline>- Q'',
        Selectbox ''Is this summary accurate?'' GRADING_OPTIONS ''p1_5_3_Summary'' True,
        Divider, Markdown ''##### Questions'', Markdown ''- Q'',
        Selectbox ''Rate Point'' GRADING_OPTIONS ''p1_5_3_Questions_0'' False]
   \<and> submit \<lparr>now = (\<lambda>k. ''2026-01-01T00:00:00''), current_user_id = ''u1'',
               selected_paper_id = ''p1'',
               reviews_map = make_reviews_map
                 (PyDict [(''inference_review'', PyNone),
                          (''prediction'', PyStr ''**Summary**\<newline>S\<newline>**Questions**\<newline>- Q'')])
                 (PyStr ''**Summary**\<newline>T''),
               session = [''p1_5_3_Summary'' \<mapsto> PyStr ''Mostly Agree'',
                          ''p1_5_5_Summary'' \<mapsto> PyStr ''Mostly Agree'',
                          ''p1_5_3_Questions_0'' \<mapsto> PyStr ''Select...'']\<rparr> None
     = Inr (Some \<lparr>header = [''timestamp'', ''user'', ''paper_id'', ''review_type'', ''section'',
                              ''point_index'', ''point_text'', ''rating''],
                    csv_rows =
                      [\<lparr>timestamp = ''2026-01-01T00:00:00'', user = ''u1'', paper_id = ''p1'',
                         review_type = ''5_3'', sect = ''Summary'', point_index = 0,
                         point_text = ''Review not available.'',
                         rating = PyStr ''Mostly Agree''\<rparr>,
                       \<lparr>timestamp = ''2026-01-01T00:00:00'', user = ''u1'', paper_id = ''p1'',
                         review_type = ''5_5'', sect = ''Summary'', point_index = 0,
                         point_text = ''T'', rating = PyStr ''Mostly Agree''\<rparr>]\<rparr>,
            Success ''Saved successfully!'')"
  by code_simp

end
